theory Spec2Isabelle
  imports Main "HOL-Library.Sublist" "HOL-Library.Product_Lexorder" "HOL-Library.Code_Target_Nat"
begin

section \<open>Text\<close>

text \<open>
  A Python \<open>str\<close> is a sequence of code points, and \<open>len\<close> counts code points, so a
  string is a list of natural numbers here. \<open>asc\<close> embeds an ASCII literal.
  Three character classes of the Python library are tables over all of Unicode; the
  model keeps the part below: decimal digits (\<open>\d\<close>) are \<open>0\<close> to \<open>9\<close>, \<open>lower\<close> maps
  the capital letters of ASCII and Latin-1, white space is the set \<open>str.isspace\<close> accepts.
\<close>

type_synonym ustr = "nat list"

definition asc :: "string \<Rightarrow> ustr" where
  "asc s = map of_char s"

definition NL :: nat where "NL = 10"
definition SP :: nat where "SP = 32"
definition USCORE :: nat where "USCORE = 95"
definition SLASH :: nat where "SLASH = 47"

definition is_digit :: "nat \<Rightarrow> bool" where
  "is_digit c = (48 \<le> c \<and> c \<le> 57)"

definition is_hexlow :: "nat \<Rightarrow> bool" where
  \<comment> \<open>the class \<open>[a-f0-9]\<close>\<close>
  "is_hexlow c = ((97 \<le> c \<and> c \<le> 102) \<or> (48 \<le> c \<and> c \<le> 57))"

definition is_space :: "nat \<Rightarrow> bool" where
  "is_space c = ((9 \<le> c \<and> c \<le> 13) \<or> (28 \<le> c \<and> c \<le> 32) \<or> c = 133 \<or> c = 160
     \<or> c = 5760 \<or> (8192 \<le> c \<and> c \<le> 8202) \<or> c = 8232 \<or> c = 8233 \<or> c = 8239
     \<or> c = 8287 \<or> c = 12288)"

definition lower_cp :: "nat \<Rightarrow> nat" where
  "lower_cp c = (if (65 \<le> c \<and> c \<le> 90) \<or> (192 \<le> c \<and> c \<le> 214) \<or> (216 \<le> c \<and> c \<le> 222)
                 then c + 32 else c)"

definition lower :: "ustr \<Rightarrow> ustr" where
  "lower s = map lower_cp s"

definition strip :: "ustr \<Rightarrow> ustr" where
  "strip s = rev (dropWhile is_space (rev (dropWhile is_space s)))"

definition startswith :: "ustr \<Rightarrow> ustr \<Rightarrow> bool" where
  "startswith s p = prefix p s"

definition contains :: "ustr \<Rightarrow> ustr \<Rightarrow> bool" where
  \<comment> \<open>\<open>contains s x\<close> is Python's \<open>x in s\<close>\<close>
  "contains s x = sublist x s"

fun split_on :: "nat \<Rightarrow> ustr \<Rightarrow> ustr list" where
  "split_on sep [] = [[]]"
| "split_on sep (c # cs) =
     (if c = sep then [] # split_on sep cs
      else (let ps = split_on sep cs in (c # hd ps) # tl ps))"

fun join :: "ustr \<Rightarrow> ustr list \<Rightarrow> ustr" where
  "join sep [] = []"
| "join sep [x] = x"
| "join sep (x # y # ys) = x @ sep @ join sep (y # ys)"

function replace_from :: "ustr \<Rightarrow> ustr \<Rightarrow> ustr \<Rightarrow> ustr" where
  "replace_from old new s =
     (if s = [] then []
      else if old \<noteq> [] \<and> prefix old s then new @ replace_from old new (drop (length old) s)
      else hd s # replace_from old new (tl s))"
  by pat_completeness auto
termination
  by (relation "measure (\<lambda>(old, new, s). length s)") auto

declare replace_from.simps [simp del]

definition replace :: "ustr \<Rightarrow> ustr \<Rightarrow> ustr \<Rightarrow> ustr" where
  \<comment> \<open>\<open>replace s old new\<close> is \<open>s.replace(old, new)\<close>; an empty \<open>old\<close> matches between
      all characters\<close>
  "replace s old new =
     (if old = [] then new @ concat (map (\<lambda>c. c # new) s) else replace_from old new s)"

definition basename :: "ustr \<Rightarrow> ustr" where
  \<comment> \<open>\<open>os.path.basename\<close>: what follows the last slash\<close>
  "basename p = rev (takeWhile (\<lambda>c. c \<noteq> SLASH) (rev p))"

definition int_of_digits :: "ustr \<Rightarrow> nat" where
  "int_of_digits s = foldl (\<lambda>a c. 10 * a + (c - 48)) 0 s"

definition digit_cp :: "nat \<Rightarrow> nat" where
  "digit_cp n = 48 + n mod 10"

definition pad2 :: "nat \<Rightarrow> ustr" where
  "pad2 n = [digit_cp (n div 10), digit_cp n]"

definition pad4 :: "nat \<Rightarrow> ustr" where
  "pad4 n = [digit_cp (n div 1000), digit_cp (n div 100), digit_cp (n div 10), digit_cp n]"

section \<open>Backtracking\<close>

text \<open>
  A greedy quantifier tries the longest repetition first and gives characters back one
  at a time; a lazy one tries the shortest first. \<open>first_down f n\<close> is the first
  success among \<open>f n, f (n - 1), \<dots>, f 1\<close>, and \<open>first_up f lo k\<close> the first among
  \<open>f lo, f (lo + 1), \<dots>, f (lo + k - 1)\<close>.
\<close>

fun first_down :: "(nat \<Rightarrow> 'a option) \<Rightarrow> nat \<Rightarrow> 'a option" where
  "first_down f 0 = None"
| "first_down f (Suc n) = (case f (Suc n) of Some r \<Rightarrow> Some r | None \<Rightarrow> first_down f n)"

fun first_up :: "(nat \<Rightarrow> 'a option) \<Rightarrow> nat \<Rightarrow> nat \<Rightarrow> 'a option" where
  "first_up f lo 0 = None"
| "first_up f lo (Suc k) = (case f lo of Some r \<Rightarrow> Some r | None \<Rightarrow> first_up f (Suc lo) k)"

section \<open>Dates and times\<close>

datatype error = ValueError | OverflowError

record datetime =
  year :: nat
  month :: nat
  day :: nat
  hour :: nat
  minute :: nat
  second :: nat

definition is_leap :: "nat \<Rightarrow> bool" where
  "is_leap y = (y mod 4 = 0 \<and> (y mod 100 \<noteq> 0 \<or> y mod 400 = 0))"

definition DAYS_IN_MONTH :: "nat list" where
  "DAYS_IN_MONTH = [0, 31, 28, 31, 30, 31, 30, 31, 31, 30, 31, 30, 31]"

definition DAYS_BEFORE_MONTH :: "nat list" where
  "DAYS_BEFORE_MONTH = [0, 0, 31, 59, 90, 120, 151, 181, 212, 243, 273, 304, 334]"

definition days_in_month :: "nat \<Rightarrow> nat \<Rightarrow> nat" where
  "days_in_month y m = (if m = 2 \<and> is_leap y then 29 else DAYS_IN_MONTH ! m)"

definition days_before_year :: "nat \<Rightarrow> nat" where
  "days_before_year y = (y - 1) * 365 + (y - 1) div 4 + (y - 1) div 400 - (y - 1) div 100"

definition days_before_month :: "nat \<Rightarrow> nat \<Rightarrow> nat" where
  "days_before_month y m = DAYS_BEFORE_MONTH ! m + (if m > 2 \<and> is_leap y then 1 else 0)"

definition ymd2ord :: "nat \<Rightarrow> nat \<Rightarrow> nat \<Rightarrow> nat" where
  "ymd2ord y m d = days_before_year y + days_before_month y m + d"

definition ord2ymd :: "nat \<Rightarrow> nat \<times> nat \<times> nat" where
  "ord2ymd ordinal =
     (let n = ordinal - 1;
          n400 = n div 146097; n = n mod 146097;
          n100 = n div 36524; n = n mod 36524;
          n4 = n div 1461; n = n mod 1461;
          n1 = n div 365; n = n mod 365;
          y = n400 * 400 + 1 + n100 * 100 + n4 * 4 + n1
      in if n1 = 4 \<or> n100 = 4 then (y - 1, 12, 31)
         else
           (let leapyear = (n1 = 3 \<and> (n4 \<noteq> 24 \<or> n100 = 3));
                m = (n + 50) div 32;
                preceding = DAYS_BEFORE_MONTH ! m + (if m > 2 \<and> leapyear then 1 else 0)
            in if preceding > n
               then (let m' = m - 1;
                         preceding' = preceding
                            - (DAYS_IN_MONTH ! m' + (if m' = 2 \<and> leapyear then 1 else 0))
                     in (y, m', n - preceding' + 1))
               else (y, m, n - preceding + 1)))"

definition toordinal :: "datetime \<Rightarrow> nat" where
  "toordinal d = ymd2ord (year d) (month d) (day d)"

definition dt_tuple :: "datetime \<Rightarrow> nat \<times> nat \<times> nat \<times> nat \<times> nat \<times> nat" where
  "dt_tuple d = (year d, month d, day d, hour d, minute d, second d)"

definition dt_gt :: "datetime \<Rightarrow> datetime \<Rightarrow> bool" where
  \<comment> \<open>\<open>a > b\<close> on datetimes compares the fields, most significant first\<close>
  "dt_gt a b = (dt_tuple b < dt_tuple a)"

definition seconds_of_day :: "datetime \<Rightarrow> int" where
  "seconds_of_day d = int (hour d) * 3600 + int (minute d) * 60 + int (second d)"

definition delta_seconds :: "datetime \<Rightarrow> datetime \<Rightarrow> int" where
  \<comment> \<open>\<open>(a - b).total_seconds()\<close>\<close>
  "delta_seconds a b =
     (int (toordinal a) - int (toordinal b)) * 86400 + (seconds_of_day a - seconds_of_day b)"

definition strptime :: "ustr \<Rightarrow> error + datetime" where
  \<comment> \<open>\<open>datetime.strptime(s, "%Y%m%d %H%M")\<close>, for the text the caller builds from
      eight date digits, a space and four time digits\<close>
  "strptime s =
     (if length s = 13 \<and> list_all is_digit (take 8 s) \<and> s ! 8 = SP
         \<and> list_all is_digit (drop 9 s)
      then (let y = int_of_digits (take 4 s);
                m = int_of_digits (take 2 (drop 4 s));
                d = int_of_digits (take 2 (drop 6 s));
                h = int_of_digits (take 2 (drop 9 s));
                mi = int_of_digits (drop 11 s)
            in if 1 \<le> y \<and> 1 \<le> m \<and> m \<le> 12 \<and> 1 \<le> d \<and> d \<le> days_in_month y m
                  \<and> h \<le> 23 \<and> mi \<le> 59
               then Inr \<lparr>year = y, month = m, day = d, hour = h, minute = mi, second = 0\<rparr>
               else Inl ValueError)
      else Inl ValueError)"

definition fromtimestamp :: "(int \<Rightarrow> int) \<Rightarrow> int \<Rightarrow> error + datetime" where
  \<comment> \<open>\<open>datetime.fromtimestamp(ts)\<close>: local time; \<open>tz ts\<close> is the offset of local time
      from UTC, in seconds, at the instant \<open>ts\<close>\<close>
  "fromtimestamp tz ts =
     (let loc = ts + tz ts; n = loc div 86400 + 719163; r = nat (loc mod 86400)
      in if n < 1 \<or> 3652059 < n then Inl OverflowError
         else (case ord2ymd (nat n) of (y, m, d) \<Rightarrow>
                 Inr \<lparr>year = y, month = m, day = d, hour = r div 3600,
                      minute = (r mod 3600) div 60, second = r mod 60\<rparr>))"

definition str_datetime :: "datetime \<Rightarrow> ustr" where
  \<comment> \<open>\<open>str(dt)\<close>: ISO format with a space\<close>
  "str_datetime d = pad4 (year d) @ asc ''-'' @ pad2 (month d) @ asc ''-'' @ pad2 (day d)
       @ asc '' '' @ pad2 (hour d) @ asc '':'' @ pad2 (minute d) @ asc '':'' @ pad2 (second d)"

section \<open>Trace file names\<close>

definition match_id_md :: "ustr \<Rightarrow> ustr option" where
  \<comment> \<open>\<open>([a-f0-9]+)\.md\<close> at the start of \<open>t\<close>\<close>
  "match_id_md t =
     first_down (\<lambda>k. if prefix (asc ''.md'') (drop k t) then Some (take k t) else None)
       (length (takeWhile is_hexlow t))"

definition match_cat_id :: "ustr \<Rightarrow> (ustr \<times> ustr) option" where
  \<comment> \<open>\<open>(.+)_([a-f0-9]+)\.md\<close> at the start of \<open>r\<close>; the dot takes no newline\<close>
  "match_cat_id r =
     first_down (\<lambda>n. if n < length r \<and> r ! n = USCORE
                      then map_option (\<lambda>i. (take n r, i)) (match_id_md (drop (Suc n) r))
                      else None)
       (length (takeWhile (\<lambda>c. c \<noteq> NL) r))"

definition match_trace_name :: "ustr \<Rightarrow> (ustr \<times> ustr \<times> ustr \<times> ustr) option" where
  \<comment> \<open>\<open>re.match(r"trace_(\d{8})_(\d{4})_(.+)_([a-f0-9]+)\.md", b)\<close>: the four groups\<close>
  "match_trace_name b =
     (if prefix (asc ''trace_'') b
      then (let r = drop 6 b
            in if 14 \<le> length r \<and> list_all is_digit (take 8 r) \<and> r ! 8 = USCORE
                  \<and> list_all is_digit (take 4 (drop 9 r)) \<and> r ! 13 = USCORE
               then map_option (\<lambda>(c, i). (take 8 r, take 4 (drop 9 r), c, i))
                      (match_cat_id (drop 14 r))
               else None)
      else None)"

definition parse_trace_filename :: "ustr \<Rightarrow> error + (datetime \<times> ustr \<times> ustr) option" where
  \<comment> \<open>\<open>Inr None\<close> is the triple of \<open>None\<close>s; \<open>Inl\<close> is the exception of \<open>strptime\<close>,
      which nothing catches\<close>
  "parse_trace_filename filename =
     (case match_trace_name (basename filename) of
        None \<Rightarrow> Inr None
      | Some (date_str, time_str, category, trace_id) \<Rightarrow>
          (case strptime (date_str @ asc '' '' @ time_str) of
             Inl e \<Rightarrow> Inl e
           | Inr dt \<Rightarrow> Inr (Some (dt, category, trace_id))))"

section \<open>Choosing the trace of an item\<close>

record item =
  item_id :: "ustr option"
  item_title :: "ustr option"
  item_category :: "ustr option"
  item_publish_time :: "int option"
  item_duration_sec :: "int option"

text \<open>
  The loop over the files of the trace directory. \<open>cands\<close> is the list of candidates
  so far; an exception of the decoder ends the loop.
\<close>

fun collect_candidates ::
  "ustr \<Rightarrow> datetime \<Rightarrow> ustr list \<Rightarrow> (int \<times> ustr) list \<Rightarrow> error + (int \<times> ustr) list" where
  "collect_candidates target_category publish_dt [] cands = Inr cands"
| "collect_candidates target_category publish_dt (f # fs) cands =
     (case parse_trace_filename f of
        Inl e \<Rightarrow> Inl e
      | Inr None \<Rightarrow> collect_candidates target_category publish_dt fs cands
      | Inr (Some (dt, category, tid)) \<Rightarrow>
          if lower category \<noteq> lower target_category
          then collect_candidates target_category publish_dt fs cands
          else if dt_gt dt publish_dt
          then collect_candidates target_category publish_dt fs cands
          else if delta_seconds publish_dt dt > 3600
          then collect_candidates target_category publish_dt fs cands
          else collect_candidates target_category publish_dt fs
                 (cands @ [(delta_seconds publish_dt dt, f)]))"

definition find_matching_trace ::
  "(int \<Rightarrow> int) \<Rightarrow> ustr list \<Rightarrow> item \<Rightarrow> ustr list \<times> (error + ustr option)" where
  \<comment> \<open>\<open>trace_files\<close> is what \<open>glob\<close> lists, in its order; the first component of the
      result is what the function prints\<close>
  "find_matching_trace tz trace_files target_item =
     (let target_category =
            replace (case item_category target_item of None \<Rightarrow> [] | Some c \<Rightarrow> c) [SP] [USCORE]
      in case item_publish_time target_item of
           None \<Rightarrow> ([asc ''Item has no publish_time.''], Inr None)
         | Some publish_ts \<Rightarrow>
             if publish_ts = 0 then ([asc ''Item has no publish_time.''], Inr None)
             else (case fromtimestamp tz publish_ts of
                     Inl e \<Rightarrow> ([], Inl e)
                   | Inr publish_dt \<Rightarrow>
                       (let out = [asc ''Searching for trace matching: Category='' @ [39]
                                     @ target_category @ [39] @ asc '', PublishTime=''
                                     @ str_datetime publish_dt]
                        in case collect_candidates target_category publish_dt trace_files [] of
                             Inl e \<Rightarrow> (out, Inl e)
                           | Inr candidates \<Rightarrow>
                               if candidates = [] then (out, Inr None)
                               else (out, Inr (Some (snd (hd (sort_key fst candidates))))))))"

text \<open>
  The three filters of the loop, as one predicate on a file name, and the key under
  which a surviving file is sorted.
\<close>

definition normalized_category :: "item \<Rightarrow> ustr" where
  "normalized_category target_item =
     replace (case item_category target_item of None \<Rightarrow> [] | Some c \<Rightarrow> c) [SP] [USCORE]"

definition eligible :: "ustr \<Rightarrow> datetime \<Rightarrow> ustr \<Rightarrow> bool" where
  "eligible target_category publish_dt f =
     (case parse_trace_filename f of
        Inr (Some (dt, cat, tid)) \<Rightarrow>
          lower cat = lower target_category \<and> \<not> dt_gt dt publish_dt
          \<and> delta_seconds publish_dt dt \<le> 3600
      | _ \<Rightarrow> False)"

definition gap :: "datetime \<Rightarrow> ustr \<Rightarrow> int" where
  "gap publish_dt f =
     (case parse_trace_filename f of
        Inr (Some (dt, cat, tid)) \<Rightarrow> delta_seconds publish_dt dt
      | _ \<Rightarrow> 0)"





section \<open>Steps of a trace\<close>

record step =
  step_id :: ustr
  step_name :: ustr
  step_time :: ustr
  step_content :: "ustr list"

definition match_label :: "ustr \<Rightarrow> ustr option" where
  \<comment> \<open>\<open>(.+?)\)\<close> at the start of \<open>u\<close>\<close>
  "match_label u =
     first_up (\<lambda>m. if m < length u \<and> u ! m = 41 then Some (take m u) else None)
       1 (length (takeWhile (\<lambda>c. c \<noteq> NL) u))"

definition match_name_label :: "ustr \<Rightarrow> (ustr \<times> ustr) option" where
  \<comment> \<open>\<open>(.+?) \((.+?)\)\<close> at the start of \<open>t\<close>\<close>
  "match_name_label t =
     first_up (\<lambda>n. if prefix (asc '' ('') (drop n t)
                    then map_option (\<lambda>l. (take n t, l)) (match_label (drop (n + 2) t))
                    else None)
       1 (length (takeWhile (\<lambda>c. c \<noteq> NL) t))"

definition match_step_header :: "ustr \<Rightarrow> (ustr \<times> ustr \<times> ustr) option" where
  \<comment> \<open>\<open>re.compile(r"^## (\d+)\. (.+?) \((.+?)\)").match(line)\<close>: the three groups\<close>
  "match_step_header line =
     (if prefix (asc ''## '') line
      then (let r = drop 3 line
            in first_down
                 (\<lambda>k. if prefix (asc ''. '') (drop k r)
                       then map_option (\<lambda>(n, l). (take k r, n, l))
                              (match_name_label (drop (k + 2) r))
                       else None)
                 (length (takeWhile is_digit r)))
      else None)"

text \<open>
  The loop over the lines: \<open>steps\<close> are the closed steps, \<open>current_step\<close> the open one.
\<close>

fun segment_loop :: "ustr list \<Rightarrow> step list \<Rightarrow> step option \<Rightarrow> step list \<times> step option" where
  "segment_loop [] steps current_step = (steps, current_step)"
| "segment_loop (line # lines) steps current_step =
     (case match_step_header line of
        Some (i, n, t) \<Rightarrow>
          segment_loop lines
            (case current_step of Some s \<Rightarrow> steps @ [s] | None \<Rightarrow> steps)
            (Some \<lparr>step_id = i, step_name = strip n, step_time = t, step_content = []\<rparr>)
      | None \<Rightarrow>
          (case current_step of
             Some s \<Rightarrow>
               segment_loop lines steps (Some (s\<lparr>step_content := step_content s @ [line]\<rparr>))
           | None \<Rightarrow> segment_loop lines steps None))"

definition parse_steps :: "ustr \<Rightarrow> step list" where
  "parse_steps trace_content =
     (case segment_loop (split_on NL trace_content) [] None of
        (steps, Some s) \<Rightarrow> steps @ [s]
      | (steps, None) \<Rightarrow> steps)"




section \<open>Materials of a segment and their sources\<close>

record material =
  title_line :: ustr
  summary :: ustr
  source :: ustr

record source_record =
  source_title :: "ustr option"
  source_summary :: "ustr option"
  source_url :: "ustr option"

definition SUMMARY_LABEL :: ustr where
  \<comment> \<open>the two characters U+6458 U+8981 and a colon\<close>
  "SUMMARY_LABEL = [25688, 35201, 58]"

definition SOURCE_LABEL :: ustr where
  \<comment> \<open>the two characters U+6765 U+6E90 and a colon\<close>
  "SOURCE_LABEL = [26469, 28304, 58]"

fun materials_loop ::
  "ustr list \<Rightarrow> material list \<Rightarrow> material option \<Rightarrow> material list \<times> material option" where
  "materials_loop [] raw_items current_item = (raw_items, current_item)"
| "materials_loop (l # ls) raw_items current_item =
     (let line = strip l
      in if line = [] then materials_loop ls raw_items current_item
         else if startswith line (asc ''- '')
         then materials_loop ls
                (case current_item of Some m \<Rightarrow> raw_items @ [m] | None \<Rightarrow> raw_items)
                (Some \<lparr>title_line = drop 2 line, summary = [], source = []\<rparr>)
         else (case current_item of
                 Some m \<Rightarrow>
                   if startswith line SUMMARY_LABEL
                   then materials_loop ls raw_items
                          (Some (m\<lparr>summary := summary m @ strip (replace line SUMMARY_LABEL [])\<rparr>))
                   else if startswith line SOURCE_LABEL
                   then materials_loop ls raw_items
                          (Some (m\<lparr>source := source m @ strip (replace line SOURCE_LABEL [])\<rparr>))
                   else materials_loop ls raw_items
                          (Some (m\<lparr>summary := summary m @ [SP] @ line\<rparr>))
               | None \<Rightarrow> materials_loop ls raw_items None))"

definition parse_materials :: "ustr \<Rightarrow> material list" where
  "parse_materials materials_raw =
     (case materials_loop (split_on NL (strip materials_raw)) [] None of
        (raw_items, Some m) \<Rightarrow> raw_items @ [m]
      | (raw_items, None) \<Rightarrow> raw_items)"

definition close_material :: "material list \<times> material option \<Rightarrow> material list" where
  "close_material r = (case r of (items, Some m) \<Rightarrow> items @ [m] | (items, None) \<Rightarrow> items)"

definition strip_tag :: "ustr \<Rightarrow> ustr" where
  \<comment> \<open>\<open>re.sub(r"^\[.*?\]\s*", "", title)\<close>\<close>
  "strip_tag title =
     (case title of
        [] \<Rightarrow> []
      | c # r \<Rightarrow>
          if c = 91
          then (case first_up (\<lambda>m. if m < length r \<and> r ! m = 93 then Some m else None)
                       0 (Suc (length (takeWhile (\<lambda>c. c \<noteq> NL) r))) of
                  Some m \<Rightarrow> dropWhile is_space (drop (Suc m) r)
                | None \<Rightarrow> title)
          else title)"

definition clean_title_of :: "ustr \<Rightarrow> ustr" where
  "clean_title_of title = strip (strip_tag title)"

definition title_or_empty :: "source_record \<Rightarrow> ustr" where
  \<comment> \<open>\<open>ns.get('source_title', '') or ''\<close>\<close>
  "title_or_empty ns = (case source_title ns of None \<Rightarrow> [] | Some t \<Rightarrow> t)"

fun match_source :: "ustr \<Rightarrow> ustr \<Rightarrow> source_record list \<Rightarrow> source_record option" where
  "match_source title clean_title [] = None"
| "match_source title clean_title (ns # sources) =
     (let ns_title = title_or_empty ns
      in if ns_title \<noteq> []
            \<and> (contains title ns_title \<or> contains ns_title clean_title \<or> contains ns_title title)
         then Some ns
         else match_source title clean_title sources)"

definition final_summary :: "source_record \<Rightarrow> material \<Rightarrow> ustr" where
  "final_summary matched_source m =
     (let db_summary =
            replace (case source_summary matched_source of None \<Rightarrow> [] | Some s \<Rightarrow> s) [NL] [SP];
          trace_summary = summary m
      in if db_summary \<noteq> [] \<and> length db_summary > length trace_summary
         then db_summary else trace_summary)"

definition reconcile :: "material \<Rightarrow> source_record list \<Rightarrow> source_record option" where
  \<comment> \<open>the search for the source of one entry, as the report runs it\<close>
  "reconcile m sources = match_source (title_line m) (clean_title_of (title_line m)) sources"




section \<open>Searching a text\<close>

text \<open>
  \<open>search k s\<close> tries the matcher \<open>k\<close> at every position of \<open>s\<close> from the left, as
  \<open>re.search\<close> does, and as a lazy \<open>.*?\<close> under \<open>DOTALL\<close> does before what follows it.
  \<open>lazy_until post s\<close> is the group of \<open>(.*?)post\<close> under \<open>DOTALL\<close>: the text before
  the first occurrence of \<open>post\<close>. \<open>lazy_line_until\<close> is the same without \<open>DOTALL\<close>,
  where the dot takes no newline. \<open>findall\<close> collects the matches from the left, each
  search starting where the last match ended; a matcher returns the length it
  consumed and the groups.
\<close>

fun search :: "(ustr \<Rightarrow> 'a option) \<Rightarrow> ustr \<Rightarrow> 'a option" where
  "search k [] = k []"
| "search k (c # cs) = (case k (c # cs) of Some r \<Rightarrow> Some r | None \<Rightarrow> search k cs)"

fun lazy_until :: "ustr \<Rightarrow> ustr \<Rightarrow> ustr option" where
  "lazy_until post [] = (if post = [] then Some [] else None)"
| "lazy_until post (c # cs) =
     (if prefix post (c # cs) then Some [] else map_option ((#) c) (lazy_until post cs))"

fun lazy_line_until :: "ustr \<Rightarrow> ustr \<Rightarrow> ustr option" where
  "lazy_line_until post [] = (if post = [] then Some [] else None)"
| "lazy_line_until post (c # cs) =
     (if prefix post (c # cs) then Some []
      else if c = NL then None
      else map_option ((#) c) (lazy_line_until post cs))"

function findall :: "(ustr \<Rightarrow> (nat \<times> 'a) option) \<Rightarrow> ustr \<Rightarrow> 'a list" where
  "findall m s =
     (if s = [] then []
      else (case m s of
              Some (l, g) \<Rightarrow> g # findall m (drop (max 1 l) s)
            | None \<Rightarrow> findall m (tl s)))"
  by pat_completeness auto
termination
  by (relation "measure (\<lambda>(m, s). length s)") auto

declare findall.simps [simp del]

function str_nat :: "nat \<Rightarrow> ustr" where
  "str_nat n = (if n < 10 then [48 + n] else str_nat (n div 10) @ [48 + n mod 10])"
  by pat_completeness auto
termination
  by (relation "measure id") auto

declare str_nat.simps [simp del]

definition str_int :: "int \<Rightarrow> ustr" where
  "str_int i = (if i < 0 then 45 # str_nat (nat (- i)) else str_nat (nat i))"

definition str_opt :: "ustr option \<Rightarrow> ustr" where
  \<comment> \<open>a value of a dictionary in an f-string: a missing one prints as \<open>None\<close>\<close>
  "str_opt v = (case v of None \<Rightarrow> asc ''None'' | Some s \<Rightarrow> s)"

definition str_int_opt :: "int option \<Rightarrow> ustr" where
  "str_int_opt v = (case v of None \<Rightarrow> asc ''None'' | Some i \<Rightarrow> str_int i)"

section \<open>Fragments of a step\<close>

definition RESPONSE_OPEN :: ustr where
  "RESPONSE_OPEN = asc ''**LLM Response**:'' @ [NL] @ asc ''```text'' @ [NL]"

definition FENCE_CLOSE :: ustr where
  "FENCE_CLOSE = [NL] @ asc ''```''"

definition MATERIALS_OPEN :: ustr where
  \<comment> \<open>U+3010, four characters U+65B0 U+95FB U+7D20 U+6750, U+3011, newline\<close>
  "MATERIALS_OPEN = [12304, 26032, 38395, 32032, 26448, 12305, NL]"

definition MATERIALS_CLOSE :: ustr where
  \<comment> \<open>newline, U+3010, four characters U+6838 U+5FC3 U+8981 U+6C42\<close>
  "MATERIALS_CLOSE = [NL, 12304, 26680, 24515, 35201, 27714]"

definition find_response :: "ustr \<Rightarrow> ustr option" where
  \<comment> \<open>\<open>re.search(r"\*\*LLM Response\*\*:\n```text\n(.*?)\n```", content_str, re.DOTALL)\<close>\<close>
  "find_response content_str =
     search (\<lambda>s. if prefix RESPONSE_OPEN s
                  then lazy_until FENCE_CLOSE (drop (length RESPONSE_OPEN) s) else None)
       content_str"

definition find_json :: "ustr \<Rightarrow> ustr option" where
  \<comment> \<open>\<open>re.search(r"\*\*LLM Response\*\*:\n```text\n(\[.*?\])\n```", content_str, re.DOTALL)\<close>\<close>
  "find_json content_str =
     search (\<lambda>s. if prefix (RESPONSE_OPEN @ [91]) s
                  then map_option (\<lambda>g. [91] @ g @ [93])
                         (lazy_until ([93] @ FENCE_CLOSE) (drop (length RESPONSE_OPEN + 1) s))
                  else None)
       content_str"

definition find_prompt :: "ustr \<Rightarrow> ustr option" where
  \<comment> \<open>\<open>re.search(r"\*\*LLM Prompt\*\*:.*?(Role:.*?)```", content_str, re.DOTALL)\<close>\<close>
  "find_prompt content_str =
     search (\<lambda>s. if prefix (asc ''**LLM Prompt**:'') s
                  then search (\<lambda>u. if prefix (asc ''Role:'') u
                                    then map_option (\<lambda>g. asc ''Role:'' @ g)
                                           (lazy_until (asc ''```'') (drop 5 u))
                                    else None)
                         (drop 15 s)
                  else None)
       content_str"

definition find_materials :: "ustr \<Rightarrow> ustr option" where
  \<comment> \<open>the search for the block between the two markers of the news materials\<close>
  "find_materials content_str =
     search (\<lambda>s. if prefix MATERIALS_OPEN s
                  then lazy_until MATERIALS_CLOSE (drop (length MATERIALS_OPEN) s) else None)
       content_str"

definition match_principle :: "ustr \<Rightarrow> (nat \<times> ustr) option" where
  \<comment> \<open>\<open>(\d+\. \*\*.*?\*\*:.*)\<close> at the start of \<open>s\<close>\<close>
  "match_principle s =
     first_down
       (\<lambda>k. if prefix (asc ''. **'') (drop k s)
             then (case lazy_line_until (asc ''**:'') (drop (k + 4) s) of
                     Some g \<Rightarrow>
                       (let l = k + 4 + length g + 3
                                  + length (takeWhile (\<lambda>c. c \<noteq> NL) (drop (k + 4 + length g + 3) s))
                        in Some (l, take l s))
                   | None \<Rightarrow> None)
             else None)
       (length (takeWhile is_digit s))"

definition match_item :: "ustr \<Rightarrow> (nat \<times> ustr \<times> ustr) option" where
  \<comment> \<open>\<open>- ([a-f0-9]+): (.*)\<close> at the start of \<open>s\<close>\<close>
  "match_item s =
     (if prefix (asc ''- '') s
      then (let t = drop 2 s
            in first_down
                 (\<lambda>k. if prefix (asc '': '') (drop k t)
                       then (let rtitle = takeWhile (\<lambda>c. c \<noteq> NL) (drop (k + 2) t)
                             in Some (2 + k + 2 + length rtitle, take k t, rtitle))
                       else None)
                 (length (takeWhile is_hexlow t)))
      else None)"

section \<open>The report\<close>

datatype jelem = JStr ustr | JAtom ustr | JCompound

text \<open>
  \<open>json.loads\<close> is a parameter of the report: \<open>json_loads text\<close> is \<open>None\<close> when the
  library raises, else the elements of the array (the text handed to it starts with a
  bracket, so a value it returns is an array). An element is a string, another value a
  dictionary can look up, given by what \<open>str\<close> prints for it, or a list or object, whose
  lookup raises inside the \<open>try\<close>.
\<close>

definition WRITER_MARK :: ustr where "WRITER_MARK = asc ''Segment Writer Result''"
definition PLAN_MARK :: ustr where "PLAN_MARK = asc ''Plan Episode Flow''"

definition content_str_of :: "step \<Rightarrow> ustr" where
  "content_str_of s = join [NL] (step_content s)"

definition render_header :: "item \<Rightarrow> datetime \<Rightarrow> ustr" where
  \<comment> \<open>the title line starts with U+1F399 U+FE0F\<close>
  "render_header target_item publish_dt =
     asc ''# '' @ [127897, 65039] @ asc '' FreshLoop Story Journey: ''
       @ str_opt (item_title target_item) @ [NL, NL]
     @ asc ''- **Category**: '' @ str_opt (item_category target_item) @ [NL]
     @ asc ''- **Publish Time**: '' @ str_datetime publish_dt @ [NL]
     @ asc ''- **Duration**: '' @ str_int_opt (item_duration_sec target_item) @ asc ''s'' @ [NL]
     @ asc ''- **Nexus ID**: `'' @ str_opt (item_id target_item) @ asc ''`'' @ [NL, NL]
     @ asc ''---'' @ [NL, NL]"

fun script_segments :: "step list \<Rightarrow> ustr list" where
  "script_segments [] = []"
| "script_segments (s # steps) =
     (if contains (step_name s) WRITER_MARK
      then (case find_response (content_str_of s) of
              Some g \<Rightarrow> strip g # script_segments steps
            | None \<Rightarrow> script_segments steps)
      else script_segments steps)"

fun render_segments :: "nat \<Rightarrow> ustr list \<Rightarrow> ustr" where
  "render_segments i [] = []"
| "render_segments i (seg # segs) =
     asc ''### Segment '' @ str_nat (i + 1) @ [NL, NL] @ seg @ [NL, NL]
       @ render_segments (i + 1) segs"

definition NO_SEGMENTS :: ustr where
  "NO_SEGMENTS = asc ''*No script segments found in trace log.*'' @ [NL, NL]"

definition RULE :: ustr where
  "RULE = asc ''---'' @ [NL, NL]"

definition SCRIPT_HEADING :: ustr where
  \<comment> \<open>chapter 1; the heading starts with U+1F3AC\<close>
  "SCRIPT_HEADING =
     asc ''## '' @ [127916] @ asc '' Chapter 1: The Final Script'' @ [NL, NL]
     @ asc ''> This is the final audio content delivered to the user.'' @ [NL, NL]"

definition script_body :: "step list \<Rightarrow> ustr" where
  "script_body steps =
     (if script_segments steps \<noteq> [] then render_segments 0 (script_segments steps)
      else NO_SEGMENTS)"

fun render_order :: "(ustr \<rightharpoonup> ustr) \<Rightarrow> nat \<Rightarrow> jelem list \<Rightarrow> ustr" where
  "render_order item_map i [] = []"
| "render_order item_map i (e # es) =
     (case e of
        JCompound \<Rightarrow> asc ''Failed to parse planning JSON.'' @ [NL]
      | JStr short_id \<Rightarrow>
          str_nat (i + 1) @ asc ''. **''
            @ (case item_map short_id of Some t \<Rightarrow> t | None \<Rightarrow> asc ''Unknown Item'')
            @ asc ''** (`'' @ short_id @ asc ''`)'' @ [NL]
            @ render_order item_map (i + 1) es
      | JAtom shown \<Rightarrow>
          str_nat (i + 1) @ asc ''. **'' @ asc ''Unknown Item''
            @ asc ''** (`'' @ shown @ asc ''`)'' @ [NL]
            @ render_order item_map (i + 1) es)"

definition NO_PLAN :: ustr where
  "NO_PLAN = asc ''*Planning step not found in trace.*'' @ [NL]"

definition JSON_FAILED :: ustr where
  "JSON_FAILED = asc ''Failed to parse planning JSON.'' @ [NL]"

definition render_principles :: "ustr \<Rightarrow> ustr" where
  "render_principles prompt_text =
     (let principles = findall match_principle prompt_text
      in if principles \<noteq> []
         then asc ''### Core Principles Used:'' @ [NL]
                @ join [NL] (map (\<lambda>p. asc ''- '' @ p) principles) @ [NL, NL]
         else [])"

definition item_map_of :: "ustr \<Rightarrow> (ustr \<rightharpoonup> ustr)" where
  "item_map_of prompt_text =
     foldl (\<lambda>m (rid, rtitle). m(rid \<mapsto> strip rtitle)) Map.empty (findall match_item prompt_text)"

definition render_plan_step :: "(ustr \<Rightarrow> jelem list option) \<Rightarrow> step \<Rightarrow> ustr" where
  "render_plan_step json_loads plan_step =
     (let content_str = content_str_of plan_step;
          prompt = find_prompt content_str;
          item_map = (case prompt of Some prompt_text \<Rightarrow> item_map_of prompt_text
                      | None \<Rightarrow> Map.empty)
      in (case prompt of Some prompt_text \<Rightarrow> render_principles prompt_text | None \<Rightarrow> [])
         @ (case find_json content_str of
              Some js \<Rightarrow>
                (case json_loads js of
                   Some order \<Rightarrow>
                     asc ''### Planned Sequence:'' @ [NL] @ render_order item_map 0 order
                 | None \<Rightarrow> JSON_FAILED)
            | None \<Rightarrow> []))"

definition PLAN_HEADING :: ustr where
  \<comment> \<open>chapter 2; the heading starts with U+1F4D0\<close>
  "PLAN_HEADING =
     asc ''## '' @ [128208] @ asc '' Chapter 2: The Blueprint (Planning)'' @ [NL, NL]
     @ asc ''> How the AI decided to arrange the stories.'' @ [NL, NL]"

definition plan_body :: "(ustr \<Rightarrow> jelem list option) \<Rightarrow> step list \<Rightarrow> ustr" where
  "plan_body json_loads steps =
     (case find (\<lambda>s. contains (step_name s) PLAN_MARK) steps of
        Some plan_step \<Rightarrow> render_plan_step json_loads plan_step
      | None \<Rightarrow> NO_PLAN)"

definition render_material :: "source_record list \<Rightarrow> material \<Rightarrow> ustr" where
  \<comment> \<open>a matched entry is marked with U+1F7E2, an unmatched one with U+26AA\<close>
  "render_material sources m =
     (case reconcile m sources of
        Some matched_source \<Rightarrow>
          asc ''- '' @ [128994] @ asc '' **'' @ str_opt (source_title matched_source) @ asc ''**''
            @ [NL]
          @ asc ''  > '' @ final_summary matched_source m @ [NL, NL]
          @ asc ''  *Source: '' @ str_opt (source_url matched_source) @ asc ''*'' @ [NL]
      | None \<Rightarrow>
          asc ''- '' @ [9898] @ asc '' **'' @ title_line m @ asc ''** *(From Log)*'' @ [NL]
          @ (if summary m \<noteq> [] then asc ''  > '' @ summary m @ [NL, NL] else [])
          @ (if source m \<noteq> [] then asc ''  *Source: '' @ source m @ asc ''*'' @ [NL] else []))"

definition DRAFT_HEADING :: ustr where
  "DRAFT_HEADING = asc ''**LLM Output (Final Draft)**:'' @ [NL]"

definition render_writer_step :: "source_record list \<Rightarrow> nat \<Rightarrow> step \<Rightarrow> ustr" where
  "render_writer_step sources i step =
     (let content_str = content_str_of step
      in asc ''### Segment '' @ str_nat (i + 1) @ asc '' Production'' @ [NL]
         @ (case find_materials content_str of
              Some materials_raw \<Rightarrow>
                asc ''**Input Sources:**'' @ [NL]
                  @ concat (map (render_material sources) (parse_materials materials_raw))
                  @ [NL]
            | None \<Rightarrow> [])
         @ DRAFT_HEADING
         @ (case find_response content_str of
              Some g \<Rightarrow> asc ''```text'' @ [NL] @ strip g @ [NL] @ asc ''```'' @ [NL]
            | None \<Rightarrow> [])
         @ [NL])"

fun render_writer_steps :: "source_record list \<Rightarrow> nat \<Rightarrow> step list \<Rightarrow> ustr" where
  "render_writer_steps sources i [] = []"
| "render_writer_steps sources i (step # steps) =
     render_writer_step sources i step @ render_writer_steps sources (i + 1) steps"

definition PRODUCTION_HEADING :: ustr where
  \<comment> \<open>chapter 3; the heading starts with U+1F3ED\<close>
  "PRODUCTION_HEADING =
     asc ''## '' @ [127981] @ asc '' Chapter 3: Production Log (Deep Dive)'' @ [NL, NL]
     @ asc ''> Detailed view of sources and transformation for each segment.'' @ [NL, NL]"

definition writer_steps :: "step list \<Rightarrow> step list" where
  "writer_steps steps = filter (\<lambda>s. contains (step_name s) WRITER_MARK) steps"

definition production_body :: "source_record list \<Rightarrow> step list \<Rightarrow> ustr" where
  "production_body sources steps = render_writer_steps sources 0 (writer_steps steps)"

definition publish_time_or_zero :: "item \<Rightarrow> int" where
  \<comment> \<open>\<open>item.get('publish_time', 0)\<close>\<close>
  "publish_time_or_zero target_item =
     (case item_publish_time target_item of None \<Rightarrow> 0 | Some t \<Rightarrow> t)"

definition generate_story_report ::
  "(int \<Rightarrow> int) \<Rightarrow> (ustr \<Rightarrow> jelem list option) \<Rightarrow> item \<Rightarrow> ustr \<Rightarrow> source_record list
     \<Rightarrow> error + ustr" where
  \<comment> \<open>\<open>Inl\<close>: the conversion of the publish time raised, and there is no report\<close>
  "generate_story_report tz json_loads target_item trace_content sources =
     (let steps = parse_steps trace_content
      in case fromtimestamp tz (publish_time_or_zero target_item) of
           Inl e \<Rightarrow> Inl e
         | Inr publish_dt \<Rightarrow>
             Inr (render_header target_item publish_dt
                  @ SCRIPT_HEADING @ script_body steps @ RULE
                  @ PLAN_HEADING @ plan_body json_loads steps @ [NL] @ RULE
                  @ PRODUCTION_HEADING @ production_body sources steps))"

section \<open>Example inputs\<close>

definition ai_item :: item where
  "ai_item = \<lparr>item_id = Some (asc ''0a1b2c3d4e''), item_title = Some (asc ''Weekly digest''),
     item_category = Some (asc ''AI News''), item_publish_time = Some 1767789540,
     item_duration_sec = Some 95\<rparr>"



definition labelled_materials :: ustr where
  "labelled_materials =
     join [NL]
       [asc ''- [AI] Model X released'',
        asc ''  '' @ SUMMARY_LABEL @ asc '' short'',
        asc ''  '' @ SOURCE_LABEL @ asc '' blog'',
        [],
        asc ''- Chip news  '']"

definition bullet_materials :: ustr where
  "bullet_materials = join [NL] [asc ''- Model X released'', asc ''-  Chip news'']"







definition unanswered_trace :: ustr where
  "unanswered_trace =
     join [NL]
       [asc ''# Trace 86eafa6b'',
        asc ''## 1. Fetch Items (12:40:01)'',
        asc ''fetched 3 items'',
        asc ''## 2. Segment Writer Result (12:45:10)'',
        asc ''**LLM Prompt**:'',
        asc ''write the segment'']"


definition planned_json :: ustr where
  \<comment> \<open>a JSON array of the two strings \<open>0a1b\<close> and \<open>beef\<close>\<close>
  "planned_json = [91, 34] @ asc ''0a1b'' @ [34, 44, 32, 34] @ asc ''beef'' @ [34, 93]"

definition example_json_loads :: "ustr \<Rightarrow> jelem list option" where
  \<comment> \<open>stands for \<open>json.loads\<close> on the planning answer of the example\<close>
  "example_json_loads js =
     (if js = planned_json then Some [JStr (asc ''0a1b''), JStr (asc ''beef'')] else None)"


definition utc :: "int \<Rightarrow> int" where
  "utc ts = 0"


definition one_hour_east :: "int \<Rightarrow> int" where
  "one_hour_east ts = 3600"
section \<open>Properties of the choice of a trace\<close>

text \<open>
  C10. An item whose \<open>publish_time\<close> is present and equal to 0 is treated as an item
  without the field: the function prints that the item has no publish time and returns
  no match, whatever the trace directory holds, so no candidate is looked at.
\<close>

theorem epoch_publish_time_is_absent:
  "find_matching_trace tz trace_files (target_item\<lparr>item_publish_time := Some 0\<rparr>)
     = ([asc ''Item has no publish_time.''], Inr None)
   \<and> find_matching_trace tz trace_files (target_item\<lparr>item_publish_time := Some 0\<rparr>)
     = find_matching_trace tz trace_files (target_item\<lparr>item_publish_time := None\<rparr>)"
  by (simp add: find_matching_trace_def)

text \<open>
  The loop keeps exactly the files that pass the three filters, in the order of the
  directory listing, each with its gap as sort key.
\<close>

lemma collect_candidates_char:
  "collect_candidates tc pdt fs cands = Inr res \<Longrightarrow>
   res = cands @ map (\<lambda>f. (gap pdt f, f)) (filter (eligible tc pdt) fs)"
proof (induction fs arbitrary: cands)
  case Nil
  then show ?case by simp
next
  case (Cons f fs)
  show ?case
  proof (cases "parse_trace_filename f")
    case (Inl e)
    with Cons.prems show ?thesis by simp
  next
    case (Inr r)
    show ?thesis
    proof (cases r)
      case None
      with Inr Cons show ?thesis by (simp add: eligible_def)
    next
      case (Some t)
      obtain dt cat tid where t: "t = (dt, cat, tid)" by (cases t) auto
      show ?thesis
      proof (cases "eligible tc pdt f")
        case True
        then have e: "lower cat = lower tc" "\<not> dt_gt dt pdt" "\<not> delta_seconds pdt dt > 3600"
          using Inr Some t by (auto simp: eligible_def)
        have g: "gap pdt f = delta_seconds pdt dt" using Inr Some t by (simp add: gap_def)
        from Cons.prems Inr Some t e
        have "collect_candidates tc pdt fs (cands @ [(delta_seconds pdt dt, f)]) = Inr res"
          by simp
        from Cons.IH[OF this] True g show ?thesis by simp
      next
        case False
        then have "collect_candidates tc pdt fs cands = Inr res"
          using Cons.prems Inr Some t by (auto simp: eligible_def split: if_splits)
        from Cons.IH[OF this] False show ?thesis by simp
      qed
    qed
  qed
qed



lemma sort_key_fst_map:
  "sort_key fst (map (\<lambda>f. (g f, f)) xs) = map (\<lambda>f. (g f, f)) (sort_key g xs)"
proof (induction xs)
  case Nil
  then show ?case by simp
next
  case (Cons a xs)
  have ins: "insort_key fst (g a, a) (map (\<lambda>f. (g f, f)) ys) = map (\<lambda>f. (g f, f)) (insort_key g a ys)" for ys
    by (induction ys) auto
  show ?case using Cons by (simp add: ins)
qed


lemma find_matching_trace_Some:
  assumes "find_matching_trace tz trace_files target_item = (out, Inr (Some p))"
  shows "\<exists>publish_ts publish_dt.
           item_publish_time target_item = Some publish_ts \<and> publish_ts \<noteq> 0
           \<and> fromtimestamp tz publish_ts = Inr publish_dt
           \<and> filter (eligible (normalized_category target_item) publish_dt) trace_files \<noteq> []
           \<and> p = hd (sort_key (gap publish_dt)
                    (filter (eligible (normalized_category target_item) publish_dt) trace_files))"
proof -
  let ?tc = "normalized_category target_item"
  from assms obtain ts where ts: "item_publish_time target_item = Some ts" "ts \<noteq> 0"
    by (cases "item_publish_time target_item")
       (auto simp: find_matching_trace_def Let_def split: if_splits)
  from assms ts obtain pdt where pdt: "fromtimestamp tz ts = Inr pdt"
    by (cases "fromtimestamp tz ts") (auto simp: find_matching_trace_def Let_def)
  from assms ts pdt obtain cands where
    c: "collect_candidates ?tc pdt trace_files [] = Inr cands"
    by (cases "collect_candidates ?tc pdt trace_files []")
       (auto simp: find_matching_trace_def Let_def normalized_category_def)
  from assms ts pdt c have ne: "cands \<noteq> []" and p: "p = snd (hd (sort_key fst cands))"
    by (auto simp: find_matching_trace_def Let_def normalized_category_def split: if_splits)
  let ?el = "filter (eligible ?tc pdt) trace_files"
  have cands: "cands = map (\<lambda>f. (gap pdt f, f)) ?el"
    using collect_candidates_char[OF c] by simp
  with ne have ne': "?el \<noteq> []" by auto
  then have "sort_key (gap pdt) ?el \<noteq> []" by (metis length_sort length_0_conv)
  then have "p = hd (sort_key (gap pdt) ?el)"
    using p cands by (simp add: sort_key_fst_map hd_map)
  with ts pdt ne' show ?thesis by blast
qed



text \<open>
  What a returned trace satisfies: its decoded category equals the normalized category
  of the item up to case, its timestamp is not later than the publish time, and the gap
  is at most 3600 seconds.
\<close>

lemma selected_trace_passes_filters:
  assumes "find_matching_trace tz trace_files target_item = (out, Inr (Some p))"
  shows "\<exists>publish_ts publish_dt dt cat tid.
           item_publish_time target_item = Some publish_ts
           \<and> fromtimestamp tz publish_ts = Inr publish_dt
           \<and> p \<in> set trace_files
           \<and> parse_trace_filename p = Inr (Some (dt, cat, tid))
           \<and> lower cat = lower (normalized_category target_item)
           \<and> \<not> dt_gt dt publish_dt
           \<and> delta_seconds publish_dt dt \<le> 3600"
proof -
  let ?tc = "normalized_category target_item"
  from find_matching_trace_Some[OF assms] obtain ts pdt where
    ts: "item_publish_time target_item = Some ts" and pdt: "fromtimestamp tz ts = Inr pdt"
    and ne: "filter (eligible ?tc pdt) trace_files \<noteq> []"
    and p: "p = hd (sort_key (gap pdt) (filter (eligible ?tc pdt) trace_files))"
    by blast
  have "sort_key (gap pdt) (filter (eligible ?tc pdt) trace_files) \<noteq> []"
    using ne by (metis length_sort length_0_conv)
  then have "p \<in> set (sort_key (gap pdt) (filter (eligible ?tc pdt) trace_files))"
    unfolding p by (rule hd_in_set)
  then have mem: "p \<in> set trace_files" and el: "eligible ?tc pdt p" by auto
  from el obtain dt cat tid where "parse_trace_filename p = Inr (Some (dt, cat, tid))"
    "lower cat = lower ?tc" "\<not> dt_gt dt pdt" "delta_seconds pdt dt \<le> 3600"
    by (auto simp: eligible_def split: sum.splits option.splits)
  with ts pdt mem show ?thesis by blast
qed

text \<open>
  C1. The claim asks for a trace timestamp strictly earlier than the publish time. The
  time check of the loop skips a file only when its timestamp is later, so a trace
  stamped with the very minute at which the item was published passes: here the item
  is published at 2026-01-07 12:39:00 and the trace named 1239 is returned, its decoded
  timestamp equal to the publish time.
\<close>

theorem trace_at_publish_instant_is_selected:
  "find_matching_trace (\<lambda>_. 0) [asc ''/logs/trace_20260107_1239_AI_News_aa01.md''] ai_item
     = ([asc ''Searching for trace matching: Category='' @ [39] @ asc ''AI_News'' @ [39]
           @ asc '', PublishTime=2026-01-07 12:39:00''],
        Inr (Some (asc ''/logs/trace_20260107_1239_AI_News_aa01.md'')))
   \<and> item_publish_time ai_item = Some 1767789540
   \<and> parse_trace_filename (asc ''/logs/trace_20260107_1239_AI_News_aa01.md'')
     = Inr (Some (\<lparr>year = 2026, month = 1, day = 7, hour = 12, minute = 39, second = 0\<rparr>,
                  asc ''AI_News'', asc ''aa01''))
   \<and> fromtimestamp (\<lambda>_. 0) 1767789540
     = Inr \<lparr>year = 2026, month = 1, day = 7, hour = 12, minute = 39, second = 0\<rparr>"
  by code_simp

section \<open>Properties of the decoding of file names\<close>

































text \<open>
  C2. The claim is that a name whose digits are no calendar date or time of day decodes
  to "no match" and never raises. The pattern accepts any eight and four digits, and the
  conversion that follows is not guarded: for month 13 and for hour 25 the decoder
  raises \<open>ValueError\<close>, and one such file in the directory makes the whole choice of a
  trace raise, although a valid candidate stands before it.
\<close>

theorem invalid_date_raises:
  "parse_trace_filename (asc ''trace_20261301_1200_AI_ab12.md'') = Inl ValueError
   \<and> parse_trace_filename (asc ''trace_20260107_2500_AI_ab12.md'') = Inl ValueError
   \<and> find_matching_trace (\<lambda>_. 0)
        [asc ''/logs/trace_20260107_1229_AI_News_aa01.md'',
         asc ''/logs/trace_20261301_1200_AI_ab12.md''] ai_item
      = ([asc ''Searching for trace matching: Category='' @ [39] @ asc ''AI_News'' @ [39]
            @ asc '', PublishTime=2026-01-07 12:39:00''], Inl ValueError)"
  by code_simp




section \<open>Properties of the segmentation\<close>












section \<open>Properties of the materials and of their reconciliation\<close>

text \<open>
  A stripped line does not end in white space, so a stripped line that starts with the
  bullet prefix has something after it.
\<close>

lemma strip_last_not_space:
  assumes "strip l \<noteq> []"
  shows "\<not> is_space (last (strip l))"
proof -
  let ?t = "rev (dropWhile is_space l)"
  from assms have ne: "dropWhile is_space ?t \<noteq> []" by (simp add: strip_def)
  have "last (strip l) = hd (dropWhile is_space ?t)"
    using ne by (simp add: strip_def last_rev)
  then show ?thesis using ne hd_dropWhile[of is_space ?t] by simp
qed

lemma bullet_title_nonempty:
  assumes "strip l \<noteq> []" "startswith (strip l) (asc ''- '')"
  shows "drop 2 (strip l) \<noteq> []"
proof
  assume e: "drop 2 (strip l) = []"
  from assms(2) obtain r where r: "strip l = asc ''- '' @ r"
    by (auto simp: startswith_def prefix_def)
  have a: "asc ''- '' = [45, 32]" by (simp add: asc_def)
  from e r a have "strip l = [45, 32]" by simp
  then have "last (strip l) = 32" by simp
  then have "is_space (last (strip l))" by (simp add: is_space_def)
  with strip_last_not_space[OF assms(1)] show False by simp
qed

lemma parse_materials_close:
  "parse_materials raw = close_material (materials_loop (split_on NL (strip raw)) [] None)"
  by (simp add: parse_materials_def close_material_def split: prod.splits option.splits)

text \<open>An invariant of the loop: a property of entries that each branch keeps.\<close>

lemma materials_loop_invariant:
  assumes new: "\<And>l. l \<in> S \<Longrightarrow> strip l \<noteq> [] \<Longrightarrow> startswith (strip l) (asc ''- '')
                   \<Longrightarrow> P \<lparr>title_line = drop 2 (strip l), summary = [], source = []\<rparr>"
    and sm: "\<And>l m. l \<in> S \<Longrightarrow> strip l \<noteq> [] \<Longrightarrow> \<not> startswith (strip l) (asc ''- '')
                   \<Longrightarrow> startswith (strip l) SUMMARY_LABEL \<Longrightarrow> P m
                   \<Longrightarrow> P (m\<lparr>summary := summary m @ strip (replace (strip l) SUMMARY_LABEL [])\<rparr>)"
    and sr: "\<And>l m. l \<in> S \<Longrightarrow> strip l \<noteq> [] \<Longrightarrow> \<not> startswith (strip l) (asc ''- '')
                   \<Longrightarrow> \<not> startswith (strip l) SUMMARY_LABEL
                   \<Longrightarrow> startswith (strip l) SOURCE_LABEL \<Longrightarrow> P m
                   \<Longrightarrow> P (m\<lparr>source := source m @ strip (replace (strip l) SOURCE_LABEL [])\<rparr>)"
    and ot: "\<And>l m. l \<in> S \<Longrightarrow> strip l \<noteq> [] \<Longrightarrow> \<not> startswith (strip l) (asc ''- '')
                   \<Longrightarrow> \<not> startswith (strip l) SUMMARY_LABEL
                   \<Longrightarrow> \<not> startswith (strip l) SOURCE_LABEL \<Longrightarrow> P m
                   \<Longrightarrow> P (m\<lparr>summary := summary m @ [SP] @ strip l\<rparr>)"
  shows "set ls \<subseteq> S \<Longrightarrow> \<forall>m\<in>set (close_material (items, cur)). P m
         \<Longrightarrow> \<forall>m\<in>set (close_material (materials_loop ls items cur)). P m"
proof (induction ls arbitrary: items cur)
  case Nil
  then show ?case by simp
next
  case (Cons l ls)
  from Cons.prems(1) have lin: "l \<in> S" and sub: "set ls \<subseteq> S" by simp_all
  note IH = Cons.IH[OF sub]
  show ?case
  proof (cases "strip l = []")
    case True
    then show ?thesis using IH[OF Cons.prems(2)] by simp
  next
    case ne: False
    show ?thesis
    proof (cases "startswith (strip l) (asc ''- '')")
      case True
      let ?n = "\<lparr>title_line = drop 2 (strip l), summary = [], source = []\<rparr>"
      have "\<forall>m\<in>set (close_material (close_material (items, cur), Some ?n)). P m"
        using Cons.prems(2) new[OF lin ne True] by (simp add: close_material_def)
      from IH[OF this] show ?thesis
        using ne True by (simp add: Let_def close_material_def split: option.splits)
    next
      case nb: False
      show ?thesis
      proof (cases cur)
        case None
        then show ?thesis using IH[of items None] Cons.prems(2) ne nb by (simp add: Let_def)
      next
        case (Some m)
        with Cons.prems(2) have Pm: "P m" and Pi: "\<forall>x\<in>set items. P x"
          by (simp_all add: close_material_def)
        show ?thesis
        proof (cases "startswith (strip l) SUMMARY_LABEL")
          case True
          have "\<forall>x\<in>set (close_material (items,
              Some (m\<lparr>summary := summary m @ strip (replace (strip l) SUMMARY_LABEL [])\<rparr>))). P x"
            using Pi sm[OF lin ne nb True Pm] by (simp add: close_material_def)
          from IH[OF this] show ?thesis using ne nb Some True by (simp add: Let_def)
        next
          case ns: False
          show ?thesis
          proof (cases "startswith (strip l) SOURCE_LABEL")
            case True
            have "\<forall>x\<in>set (close_material (items,
                Some (m\<lparr>source := source m @ strip (replace (strip l) SOURCE_LABEL [])\<rparr>))). P x"
              using Pi sr[OF lin ne nb ns True Pm] by (simp add: close_material_def)
            from IH[OF this] show ?thesis using ne nb Some ns True by (simp add: Let_def)
          next
            case False
            have "\<forall>x\<in>set (close_material (items,
                Some (m\<lparr>summary := summary m @ [SP] @ strip l\<rparr>))). P x"
              using Pi ot[OF lin ne nb ns False Pm] by (simp add: close_material_def)
            from IH[OF this] show ?thesis using ne nb Some ns False by (simp add: Let_def)
          qed
        qed
      qed
    qed
  qed
qed

text \<open>
  C8. Every entry the materials loop produces has a non-empty \<open>title_line\<close>. Its
  \<open>summary\<close> and \<open>source\<close> are strings from the start (empty ones), and stay empty
  when no continuation line supplies them: \<open>summary\<close> when every non-blank line is a
  bullet or a source line, \<open>source\<close> when no continuation line carries the source label.
\<close>

theorem material_entries_have_titles:
  "(\<forall>m\<in>set (parse_materials materials_raw). title_line m \<noteq> [])
   \<and> ((\<forall>l\<in>set (split_on NL (strip materials_raw)).
          strip l = [] \<or> startswith (strip l) (asc ''- '') \<or> startswith (strip l) SOURCE_LABEL)
        \<longrightarrow> (\<forall>m\<in>set (parse_materials materials_raw). summary m = []))
   \<and> ((\<forall>l\<in>set (split_on NL (strip materials_raw)).
          strip l = [] \<or> startswith (strip l) (asc ''- '')
          \<or> \<not> startswith (strip l) SOURCE_LABEL)
        \<longrightarrow> (\<forall>m\<in>set (parse_materials materials_raw). source m = []))"
proof (intro conjI impI)
  let ?ls = "split_on NL (strip materials_raw)"
  show "\<forall>m\<in>set (parse_materials materials_raw). title_line m \<noteq> []"
    unfolding parse_materials_close
  proof (rule materials_loop_invariant[where S = UNIV and P = "\<lambda>m. title_line m \<noteq> []"])
    fix l :: ustr
    assume "strip l \<noteq> []" "startswith (strip l) (asc ''- '')"
    then have "drop 2 (strip l) \<noteq> []" by (rule bullet_title_nonempty)
    then show "title_line \<lparr>title_line = drop 2 (strip l), summary = [], source = []\<rparr> \<noteq> []"
      by (simp only: material.select_convs not_False_eq_True)
  qed (simp_all add: close_material_def)
next
  let ?ls = "split_on NL (strip materials_raw)"
  assume a: "\<forall>l\<in>set ?ls. strip l = [] \<or> startswith (strip l) (asc ''- '')
               \<or> startswith (strip l) SOURCE_LABEL"
  have ne: "\<And>x. startswith x SOURCE_LABEL \<Longrightarrow> \<not> startswith x SUMMARY_LABEL"
    by (auto simp: startswith_def prefix_def SOURCE_LABEL_def SUMMARY_LABEL_def)
  show "\<forall>m\<in>set (parse_materials materials_raw). summary m = []"
    unfolding parse_materials_close
    by (rule materials_loop_invariant[where S = "set ?ls" and P = "\<lambda>m. summary m = []"])
       (use a ne in \<open>auto simp: close_material_def\<close>)
next
  let ?ls = "split_on NL (strip materials_raw)"
  assume a: "\<forall>l\<in>set ?ls. strip l = [] \<or> startswith (strip l) (asc ''- '')
               \<or> \<not> startswith (strip l) SOURCE_LABEL"
  show "\<forall>m\<in>set (parse_materials materials_raw). source m = []"
    unfolding parse_materials_close
    by (rule materials_loop_invariant[where S = "set ?ls" and P = "\<lambda>m. source m = []"])
       (use a in \<open>auto simp: close_material_def\<close>)
qed

theorem material_entries_have_titles_witness:
  "parse_materials labelled_materials
     = [\<lparr>title_line = asc ''[AI] Model X released'', summary = asc ''short'',
          source = asc ''blog''\<rparr>,
        \<lparr>title_line = asc ''Chip news'', summary = [], source = []\<rparr>]
   \<and> list_all (\<lambda>m. title_line m \<noteq> []) (parse_materials labelled_materials)
   \<and> parse_materials bullet_materials
     = [\<lparr>title_line = asc ''Model X released'', summary = [], source = []\<rparr>,
        \<lparr>title_line = asc '' Chip news'', summary = [], source = []\<rparr>]
   \<and> list_all (\<lambda>l. strip l = [] \<or> startswith (strip l) (asc ''- ''))
        (split_on NL (strip bullet_materials))
   \<and> list_all (\<lambda>m. summary m = [] \<and> source m = []) (parse_materials bullet_materials)"
proof -
  have r1: "parse_materials labelled_materials
     = [\<lparr>title_line = asc ''[AI] Model X released'', summary = asc ''short'',
          source = asc ''blog''\<rparr>,
        \<lparr>title_line = asc ''Chip news'', summary = [], source = []\<rparr>]"
    by code_simp
  have r2: "parse_materials bullet_materials
     = [\<lparr>title_line = asc ''Model X released'', summary = [], source = []\<rparr>,
        \<lparr>title_line = asc '' Chip news'', summary = [], source = []\<rparr>]"
    by code_simp
  have h: "list_all (\<lambda>l. strip l = [] \<or> startswith (strip l) (asc ''- ''))
        (split_on NL (strip bullet_materials))"
    by code_simp
  note t1 = material_entries_have_titles[of labelled_materials]
  note t2 = material_entries_have_titles[of bullet_materials]
  from t1 have a: "list_all (\<lambda>m. title_line m \<noteq> []) (parse_materials labelled_materials)"
    by (simp add: list_all_iff)
  from h have h': "\<forall>l\<in>set (split_on NL (strip bullet_materials)).
      strip l = [] \<or> startswith (strip l) (asc ''- '')"
    by (simp add: list_all_iff)
  from t2 h' have "\<forall>m\<in>set (parse_materials bullet_materials). summary m = []"
    "\<forall>m\<in>set (parse_materials bullet_materials). source m = []"
    by blast+
  then have b: "list_all (\<lambda>m. summary m = [] \<and> source m = []) (parse_materials bullet_materials)"
    by (simp add: list_all_iff)
  from r1 r2 h a b show ?thesis by blast
qed









section \<open>The report: what a missing fragment leaves behind\<close>














section \<open>The report: what it depends on\<close>



lemma report_prints_local_time:
  "generate_story_report utc example_json_loads ai_item unanswered_trace [] \<noteq>
   generate_story_report one_hour_east example_json_loads ai_item unanswered_trace []"
  by code_simp

end
